theory Spec2Isabelle
  imports Main
begin

section \<open>Type expressions and signatures of the declaration files\<close>

text \<open>
  The sources are TypeScript declaration files and one type-test file. A declaration
  has no body; what it fixes is a surface of names and type expressions. The type
  expressions that occur in the modelled declarations are primitive keywords, named
  types with type arguments, and unions.
\<close>

datatype ty =
    TNumber
  | TBoolean
  | TString
  | TVoid
  | TNull
  | TUndefined
  | TAny
  | TRef string "ty list"
  | TUnion "ty list"

text \<open>A parameter \<open>x: T\<close> or \<open>x?: T\<close> of a constructor, method or function type.\<close>

record param =
  pname :: string
  ptype :: ty
  optional :: bool

text \<open>A call signature \<open>(p1, ..., pn) => R\<close>.\<close>

record signature =
  sparams :: "param list"
  sret :: ty

text \<open>
  An ambient class declaration: its name, the class it extends, its own property
  declarations in source order, and the parameters of its constructor.
\<close>

record class_decl =
  cname :: string
  cextends :: "string option"
  cfields :: "(string \<times> ty) list"
  cctor :: "param list"

definition req :: "string \<Rightarrow> ty \<Rightarrow> param" where
  "req n t = \<lparr>pname = n, ptype = t, optional = False\<rparr>"

definition opt :: "string \<Rightarrow> ty \<Rightarrow> param" where
  "opt n t = \<lparr>pname = n, ptype = t, optional = True\<rparr>"

text \<open>The type of an own property of a class, by name.\<close>

definition member_type :: "class_decl \<Rightarrow> string \<Rightarrow> ty option" where
  "member_type c n = map_of (cfields c) n"

definition member_names :: "class_decl \<Rightarrow> string list" where
  "member_names c = map fst (cfields c)"

subsection \<open>\<open>types/three/examples/jsm/tsl/display/Lut3DNode.d.ts\<close>\<close>

text \<open>
  \<^verbatim>\<open>
  declare class Lut3DNode extends TempNode {
      inputNode: Node;
      lutNode: Texture3DNode;
      size: ShaderNodeObject<UniformNode<number>>;
      intensityNode: UniformNode<number>;

      constructor(inputNode: Node, lutNode: UniformNode<Data3DTexture>, size: number,
                  intensityNode: UniformNode<number>);
  }
  \<close>
\<close>

definition Lut3DNode :: class_decl where
  "Lut3DNode = \<lparr>
     cname = ''Lut3DNode'',
     cextends = Some ''TempNode'',
     cfields = [
       (''inputNode'', TRef ''Node'' []),
       (''lutNode'', TRef ''Texture3DNode'' []),
       (''size'', TRef ''ShaderNodeObject'' [TRef ''UniformNode'' [TNumber]]),
       (''intensityNode'', TRef ''UniformNode'' [TNumber])],
     cctor = [
       req ''inputNode'' (TRef ''Node'' []),
       req ''lutNode'' (TRef ''UniformNode'' [TRef ''Data3DTexture'' []]),
       req ''size'' TNumber,
       req ''intensityNode'' (TRef ''UniformNode'' [TNumber])]\<rparr>"

text \<open>
  \<^verbatim>\<open>
  export const lut3D: (node: Node, lut: Node, size: number, intensity: Node)
      => ShaderNodeObject<Lut3DNode>;
  \<close>
\<close>

definition lut3D :: signature where
  "lut3D = \<lparr>
     sparams = [
       req ''node'' (TRef ''Node'' []),
       req ''lut'' (TRef ''Node'' []),
       req ''size'' TNumber,
       req ''intensity'' (TRef ''Node'' [])],
     sret = TRef ''ShaderNodeObject'' [TRef ''Lut3DNode'' []]\<rparr>"

subsection \<open>\<open>types/three/src/renderers/WebGLRenderer.d.ts\<close>: viewport and scissor\<close>

text \<open>
  \<^verbatim>\<open>
  setViewport(x: Vector4 | number, y?: number, width?: number, height?: number): void;
  setScissor(x: Vector4 | number, y?: number, width?: number, height?: number): void;
  \<close>
\<close>

definition setViewport :: signature where
  "setViewport = \<lparr>
     sparams = [
       req ''x'' (TUnion [TRef ''Vector4'' [], TNumber]),
       opt ''y'' TNumber,
       opt ''width'' TNumber,
       opt ''height'' TNumber],
     sret = TVoid\<rparr>"

definition setScissor :: signature where
  "setScissor = \<lparr>
     sparams = [
       req ''x'' (TUnion [TRef ''Vector4'' [], TNumber]),
       opt ''y'' TNumber,
       opt ''width'' TNumber,
       opt ''height'' TNumber],
     sret = TVoid\<rparr>"

section \<open>Checking a call against a signature\<close>

text \<open>
  The declarations have no semantics of their own: they are read by the TypeScript
  checker. For a call \<open>f(a1, ..., ak)\<close> against one non-generic signature without rest
  parameter the checker asks that \<open>k\<close> lies between the position of the last required
  parameter and the number of parameters, and that each argument type is assignable to
  the type of its parameter, an optional parameter \<open>y?: T\<close> having type
  \<open>T | undefined\<close>.

  \<open>assignable s t\<close> holds the rules of assignability that need no knowledge of what a
  named type contains: everything is assignable to \<open>any\<close> and \<open>any\<close> to everything, a
  union is assignable when each of its members is, a type is assignable to a union when
  it is assignable to one member, and a type is assignable to itself. It is a sufficient
  condition: where it holds the checker accepts; for two different named types it
  answers \<open>False\<close> without looking at their members.
\<close>

fun assignable :: "ty \<Rightarrow> ty \<Rightarrow> bool" where
  "assignable s TAny = True"
| "assignable TAny t = True"
| "assignable (TUnion ss) t = list_all (\<lambda>s. assignable s t) ss"
| "assignable s (TUnion ts) = list_ex (\<lambda>t. assignable s t) ts"
| "assignable s t = (s = t)"

definition param_type :: "param \<Rightarrow> ty" where
  "param_type p = (if optional p then TUnion [ptype p, TUndefined] else ptype p)"

text \<open>The least number of arguments: everything up to the last required parameter.\<close>

definition min_args :: "param list \<Rightarrow> nat" where
  "min_args ps = length (dropWhile optional (rev ps))"

fun args_ok :: "param list \<Rightarrow> ty list \<Rightarrow> bool" where
  "args_ok ps [] = True"
| "args_ok [] (a # as) = False"
| "args_ok (p # ps) (a # as) = (assignable a (param_type p) \<and> args_ok ps as)"

definition call_ok :: "signature \<Rightarrow> ty list \<Rightarrow> bool" where
  "call_ok sg as =
     (min_args (sparams sg) \<le> length as \<and> length as \<le> length (sparams sg)
      \<and> args_ok (sparams sg) as)"

section \<open>Source files as programs\<close>

text \<open>
  A source file is a list of top-level statements. Type annotations and assertions are
  erased, as the compiler erases them. An expression is kept as far as it can call or
  construct something; a function literal is a value whose body does not run where it
  is written, so only its parameter names are kept.
\<close>

datatype expr =
    Var string
  | StrLit string
  | NumLit int
  | BoolLit bool
  | Fn "string list"
  | Arr "expr list"
  | Obj "(string \<times> expr) list"
  | Member expr string
  | Call expr "expr list"
  | New string "expr list"

text \<open>An import specifier \<open>a\<close> or \<open>a as b\<close>.\<close>

datatype binding = Name string | As string string

text \<open>
  The statement forms of the three files. \<open>Interface\<close>, \<open>DeclareClass\<close> and
  \<open>DeclareConst\<close> are ambient declarations (a \<open>.d.ts\<close> file has no other kind); a
  \<open>FunDecl\<close> is a function declaration, whose body runs only when the function is
  called, so the body is not part of the statement.
\<close>

datatype stmt =
    Import "binding list" string
  | ImportStar string string
  | ImportRequire string string
  | Interface string
  | DeclareClass string
  | DeclareConst string
  | ExportDefault string
  | FunDecl string
  | Local string expr
  | LocalPat "string list" expr
  | Assign string expr
  | ExprStmt expr
  | Block "stmt list"

text \<open>
  A file is its path below \<open>src/\<close> and its statements. An import binds names; loading
  the imported module is the work of the runtime, not of the importing file.
\<close>

record source_file =
  fpath :: "string list"
  fbody :: "stmt list"














text \<open>
  The names a file declares at top level: what another file could import from it or
  refer to.
\<close>

fun declares :: "stmt \<Rightarrow> string list" where
  "declares (Interface n) = [n]"
| "declares (DeclareClass n) = [n]"
| "declares (DeclareConst n) = [n]"
| "declares (FunDecl n) = [n]"
| "declares s = []"

definition declared_names :: "stmt list \<Rightarrow> string list" where
  "declared_names p = concat (map declares p)"

subsection \<open>Imports and their resolution\<close>

fun exported_name :: "binding \<Rightarrow> string" where
  "exported_name (Name a) = a"
| "exported_name (As a b) = a"

fun import_spec :: "stmt \<Rightarrow> string list" where
  "import_spec (Import bs m) = [m]"
| "import_spec (ImportStar n m) = [m]"
| "import_spec (ImportRequire n m) = [m]"
| "import_spec s = []"

fun import_names :: "stmt \<Rightarrow> string list" where
  "import_names (Import bs m) = map exported_name bs"
| "import_names s = []"




fun is_import :: "stmt \<Rightarrow> bool" where
  "is_import (Import bs m) = True"
| "is_import (ImportStar n m) = True"
| "is_import (ImportRequire n m) = True"
| "is_import s = False"

definition imports_of :: "stmt list \<Rightarrow> string list" where
  "imports_of p = concat (map import_spec p)"

definition imported_names :: "stmt list \<Rightarrow> string list" where
  "imported_names p = concat (map import_names p)"

text \<open>
  A module specifier is resolved as the checker resolves it: one that starts with
  \<open>./\<close> or \<open>../\<close> names a file relative to the directory of the importing file; one
  that starts with \<open>node:\<close> names a module built into the runtime; any other names a
  module of a package. A file is identified by its path without the extension
  (\<open>Camera.js\<close> in a specifier and \<open>Camera.d.ts\<close> on disk are the same module).
\<close>

fun split_path :: "string \<Rightarrow> string list" where
  "split_path [] = [[]]"
| "split_path (c # cs) =
     (if c = CHR ''/'' then [] # split_path cs
      else (case split_path cs of [] \<Rightarrow> [[c]] | s # ss \<Rightarrow> (c # s) # ss))"

definition is_relative :: "string \<Rightarrow> bool" where
  "is_relative s = (take 2 s = ''./'' \<or> take 3 s = ''../'')"

definition is_builtin :: "string \<Rightarrow> bool" where
  "is_builtin s = (take 5 s = ''node:'')"

fun walk :: "string list \<Rightarrow> string list \<Rightarrow> string list" where
  "walk dir [] = dir"
| "walk dir (s # segs) =
     (if s = ''..'' then walk (butlast dir) segs
      else if s = ''.'' then walk dir segs
      else walk (dir @ [s]) segs)"

definition stem :: "string \<Rightarrow> string" where
  "stem s = takeWhile (\<lambda>c. c \<noteq> CHR ''.'') s"

definition module_of :: "string list \<Rightarrow> string list" where
  "module_of p = (if p = [] then [] else butlast p @ [stem (last p)])"

datatype target =
    RepoFile "string list"
  | NodeBuiltin string
  | PackageModule string "string list"

definition resolve :: "string list \<Rightarrow> string \<Rightarrow> target" where
  "resolve dir spec =
     (if is_relative spec then RepoFile (module_of (walk dir (split_path spec)))
      else if is_builtin spec then NodeBuiltin (drop 5 spec)
      else (case split_path spec of
              [] \<Rightarrow> PackageModule [] []
            | p # sub \<Rightarrow> PackageModule p sub))"

definition targets :: "source_file \<Rightarrow> target list" where
  "targets f = map (resolve (butlast (fpath f))) (imports_of (fbody f))"

fun is_repo_file :: "target \<Rightarrow> bool" where
  "is_repo_file (RepoFile p) = True"
| "is_repo_file t = False"

text \<open>The claim that a file imports library modules only.\<close>

definition external_only :: "source_file \<Rightarrow> bool" where
  "external_only f = list_all (\<lambda>t. \<not> is_repo_file t) (targets f)"

text \<open>Whether a target is a file below the directory \<open>d\<close>.\<close>

fun is_under :: "string list \<Rightarrow> target \<Rightarrow> bool" where
  "is_under d (RepoFile p) = (take (length d) p = d)"
| "is_under d t = False"

subsection \<open>The three files\<close>

text \<open>
  \<open>WebGLRenderer.d.ts\<close>: 27 imports (lines 1-27), \<open>export interface
  WebGLRendererParameters\<close> (29-81), \<open>export interface WebGLDebug\<close> (83-103) and
  \<open>export class WebGLRenderer\<close> (111-565).
\<close>

definition WebGLRenderer_d_ts :: source_file where
  "WebGLRenderer_d_ts = \<lparr>
     fpath = [''types'', ''three'', ''src'', ''renderers'', ''WebGLRenderer.d.ts''],
     fbody = [
       Import [Name ''Camera''] ''../cameras/Camera.js'',
       Import [Name ''CullFace'', Name ''ShadowMapType'', Name ''ToneMapping'',
               Name ''WebGLCoordinateSystem''] ''../constants.js'',
       Import [Name ''TypedArray''] ''../core/BufferAttribute.js'',
       Import [Name ''BufferGeometry''] ''../core/BufferGeometry.js'',
       Import [Name ''Object3D''] ''../core/Object3D.js'',
       Import [Name ''Material''] ''../materials/Material.js'',
       Import [Name ''Box2''] ''../math/Box2.js'',
       Import [Name ''Box3''] ''../math/Box3.js'',
       Import [Name ''Color'', Name ''ColorRepresentation''] ''../math/Color.js'',
       Import [Name ''Plane''] ''../math/Plane.js'',
       Import [Name ''Vector2''] ''../math/Vector2.js'',
       Import [Name ''Vector3''] ''../math/Vector3.js'',
       Import [Name ''Vector4''] ''../math/Vector4.js'',
       Import [Name ''Scene''] ''../scenes/Scene.js'',
       Import [Name ''Data3DTexture''] ''../textures/Data3DTexture.js'',
       Import [Name ''DataArrayTexture''] ''../textures/DataArrayTexture.js'',
       Import [Name ''OffscreenCanvas'', Name ''Texture''] ''../textures/Texture.js'',
       Import [Name ''WebGLCapabilities'', Name ''WebGLCapabilitiesParameters'']
         ''./webgl/WebGLCapabilities.js'',
       Import [Name ''WebGLExtensions''] ''./webgl/WebGLExtensions.js'',
       Import [Name ''WebGLInfo''] ''./webgl/WebGLInfo.js'',
       Import [Name ''WebGLProgram''] ''./webgl/WebGLProgram.js'',
       Import [Name ''WebGLProperties''] ''./webgl/WebGLProperties.js'',
       Import [Name ''WebGLRenderLists''] ''./webgl/WebGLRenderLists.js'',
       Import [Name ''WebGLShadowMap''] ''./webgl/WebGLShadowMap.js'',
       Import [Name ''WebGLState''] ''./webgl/WebGLState.js'',
       Import [Name ''WebGLRenderTarget''] ''./WebGLRenderTarget.js'',
       Import [Name ''WebXRManager''] ''./webxr/WebXRManager.js'',
       Interface ''WebGLRendererParameters'',
       Interface ''WebGLDebug'',
       DeclareClass ''WebGLRenderer'']\<rparr>"

text \<open>
  \<open>Lut3DNode.d.ts\<close>: two imports, the ambient class, its default export and the
  ambient constant \<open>lut3D\<close>.
\<close>

definition Lut3DNode_d_ts :: source_file where
  "Lut3DNode_d_ts = \<lparr>
     fpath = [''types'', ''three'', ''examples'', ''jsm'', ''tsl'', ''display'',
              ''Lut3DNode.d.ts''],
     fbody = [
       Import [Name ''ShaderNodeObject''] ''three/tsl'',
       Import [Name ''Data3DTexture'', Name ''Node'', Name ''TempNode'',
               Name ''Texture3DNode'', Name ''UniformNode''] ''three/webgpu'',
       DeclareClass ''Lut3DNode'',
       ExportDefault ''Lut3DNode'',
       DeclareConst ''lut3D'']\<rparr>"

text \<open>
  The stream test file (\<open>src/unnamed/part_000\<close>, the type test of the \<open>node:stream\<close>
  declarations): 14 imports (lines 1-25), 16 function declarations, none of them
  called in the file, and 15 top-level statements (line 547 and the blocks of lines
  549-675 and 791-830).
\<close>

definition stream_test :: source_file where
  "stream_test = \<lparr>
     fpath = [''unnamed'', ''part_000''],
     fbody = [
       Import [Name ''createReadStream'', Name ''createWriteStream''] ''node:fs'',
       Import [Name ''addAbortSignal'', Name ''Duplex'', Name ''duplexPair'',
               Name ''finished'', Name ''isErrored'', Name ''isReadable'', Name ''pipeline'',
               Name ''Readable'', Name ''Transform'', Name ''Writable''] ''node:stream'',
       Import [Name ''promisify''] ''node:util'',
       Import [Name ''constants'', Name ''createGzip''] ''node:zlib'',
       ImportRequire ''assert'' ''node:assert'',
       Import [Name ''Blob''] ''node:buffer'',
       Import [Name ''Http2ServerResponse''] ''node:http2'',
       Import [Name ''performance''] ''node:perf_hooks'',
       Import [Name ''stdout''] ''node:process'',
       ImportStar ''consumers'' ''node:stream/consumers'',
       Import [As ''finished'' ''finishedPromise'', As ''pipeline'' ''pipelinePromise'']
         ''node:stream/promises'',
       Import [Name ''ReadableStream'', Name ''ReadableStreamBYOBReader'',
               Name ''TransformStream'', Name ''WritableStream''] ''node:stream/web'',
       Import [As ''setInterval'' ''every'', As ''setTimeout'' ''wait'']
         ''node:timers/promises'',
       Import [As ''MessageChannel'' ''NodeMC''] ''node:worker_threads'',
       FunDecl ''simplified_stream_ctor_test'',
       FunDecl ''streamPipelineFinished'',
       FunDecl ''asyncStreamPipelineFinished'',
       FunDecl ''streamPipelineAsyncTransform'',
       FunDecl ''streamPipelineAsyncPromiseTransform'',
       FunDecl ''streamPipelineAsyncPromiseAbortTransform'',
       FunDecl ''streamPipelineAsyncPromiseOptions'',
       FunDecl ''testConsumers'',
       FunDecl ''stream_readable_pipe_test'',
       FunDecl ''stream_duplex_allowHalfOpen_test'',
       ExprStmt (Call (Var ''addAbortSignal'') [New ''AbortSignal'' [], New ''Readable'' []]),
       Block [
         Local ''a'' (Call (Member (Var ''Readable'') ''from'')
           [Arr [StrLit ''test''], Obj [(''objectMode'', BoolLit True)]])],
       Block [
         Local ''a'' (New ''Readable'' []),
         ExprStmt (Call (Member (Var ''a'') ''unshift'')
           [StrLit ''something'', StrLit ''utf8''])],
       Block [
         Local ''readable'' (New ''Readable'' []),
         ExprStmt (Call (Member (Var ''Readable'') ''isDisturbed'') [Var ''readable'']),
         Local ''readableDidRead'' (Member (Var ''readable'') ''readableDidRead''),
         Local ''readableAborted'' (Member (Var ''readable'') ''readableAborted'')],
       Block [
         ExprStmt (Call (Var ''isErrored'') [New ''Readable'' []]),
         ExprStmt (Call (Var ''isErrored'') [New ''Duplex'' []]),
         ExprStmt (Call (Var ''isErrored'') [New ''Writable'' []])],
       Block [
         ExprStmt (Call (Var ''isReadable'') [New ''Readable'' []]),
         ExprStmt (Call (Var ''isReadable'') [New ''Duplex'' []])],
       Block [
         Local ''readable'' (New ''Readable'' []),
         ExprStmt (Call (Member (Var ''Readable'') ''toWeb'') [Var ''readable'']),
         ExprStmt (Call (Member (Var ''Readable'') ''toWeb'') [Var ''readable'', Obj []]),
         ExprStmt (Call (Member (Var ''Readable'') ''toWeb'')
           [Var ''readable'', Obj [(''strategy'', Obj [])]]),
         ExprStmt (Call (Member (Var ''Readable'') ''toWeb'')
           [Var ''readable'',
            Obj [(''strategy'',
              Obj [(''highWaterMark'', NumLit 3), (''size'', Fn [''chunk''])])]])],
       Block [
         Local ''web'' (New ''ReadableStream'' []),
         ExprStmt (Call (Member (Var ''Readable'') ''fromWeb'') [Var ''web'']),
         ExprStmt (Call (Member (Var ''Readable'') ''fromWeb'')
           [Var ''web'', Obj [(''objectMode'', BoolLit True)]]),
         ExprStmt (Call (Member (Var ''Readable'') ''fromWeb'')
           [Var ''web'', Obj [(''emitClose'', BoolLit True)]])],
       Block [
         Local ''writable'' (New ''Writable'' []),
         ExprStmt (Call (Member (Var ''Writable'') ''toWeb'') [Var ''writable''])],
       Block [
         Local ''web'' (New ''WritableStream'' []),
         ExprStmt (Call (Member (Var ''Writable'') ''fromWeb'') [Var ''web'']),
         ExprStmt (Call (Member (Var ''Writable'') ''fromWeb'')
           [Var ''web'', Obj [(''objectMode'', BoolLit True)]]),
         ExprStmt (Call (Member (Var ''Writable'') ''fromWeb'')
           [Var ''web'', Obj [(''write'', BoolLit True)]])],
       Block [
         Local ''duplex'' (New ''Duplex'' []),
         ExprStmt (Call (Member (Var ''Duplex'') ''toWeb'') [Var ''duplex''])],
       Block [
         LocalPat [''duplexLeft'', ''duplexRight''] (Call (Var ''duplexPair'') []),
         ExprStmt (Var ''duplexLeft''),
         ExprStmt (Var ''duplexRight'')],
       Block [
         Local ''readable'' (New ''ReadableStream'' []),
         Local ''writable'' (New ''WritableStream'' []),
         ExprStmt (Call (Member (Var ''Duplex'') ''fromWeb'')
           [Obj [(''readable'', Var ''readable''), (''writable'', Var ''writable'')]]),
         ExprStmt (Call (Member (Var ''Duplex'') ''fromWeb'')
           [Obj [(''readable'', Var ''readable''), (''writable'', Var ''writable'')],
            Obj [(''objectMode'', BoolLit True)]]),
         ExprStmt (Call (Member (Var ''Duplex'') ''fromWeb'')
           [Obj [(''readable'', Var ''readable''), (''writable'', Var ''writable'')],
            Obj [(''emitClose'', BoolLit True)]]),
         ExprStmt (Call (Member (Var ''Duplex'') ''from'') [Var ''readable'']),
         ExprStmt (Call (Member (Var ''Duplex'') ''from'') [Var ''writable''])],
       FunDecl ''testReadableReduce'',
       FunDecl ''testReadableFind'',
       FunDecl ''testReadableStream'',
       FunDecl ''testWritableStream'',
       FunDecl ''testTransformStream'',
       FunDecl ''testTransferringStreamWithPostMessage'',
       Block [
         Local ''transform'' (New ''Transform'' []),
         ExprStmt
           (Call (Member
             (Call (Member
               (Call (Member
                 (Call (Member (Var ''transform'') ''on'') [StrLit ''pipe'', Fn [''src'']])
                 ''once'') [StrLit ''unpipe'', Fn [''src'']])
               ''addListener'') [StrLit ''data'', Fn [''chunk'']])
             ''prependOnceListener'') [StrLit ''error'', Fn [''err'']])],
       Block [
         Local ''byobReader''
           (Call (Member
             (Call (Member (New ''Blob'' [Arr [StrLit ''1'', StrLit ''2'']]) ''stream'') [])
             ''getReader'') [Obj [(''mode'', StrLit ''byob'')]]),
         Assign ''byobReader''
           (New ''ReadableStreamBYOBReader''
             [Call (Member (New ''Blob'' [Arr []]) ''stream'') []]),
         ExprStmt (Call (Member (Var ''byobReader'') ''cancel'') []),
         ExprStmt (Call (Member (Var ''byobReader'') ''cancel'') [StrLit ''reason'']),
         ExprStmt (Member (Var ''byobReader'') ''closed''),
         ExprStmt (Call (Member (Var ''byobReader'') ''read'') [New ''Uint8Array'' []]),
         ExprStmt (Call (Member (Var ''byobReader'') ''read'')
           [New ''Uint8Array'' [], Obj []]),
         ExprStmt (Call (Member (Var ''byobReader'') ''read'')
           [New ''Uint8Array'' [], Obj [(''min'', NumLit 1)]]),
         ExprStmt (Call (Member (Var ''byobReader'') ''releaseLock'') [])]]\<rparr>"

subsection \<open>The words of the three files\<close>

text \<open>
  A file can refer to a name only by writing it. The tables below hold every word of the
  code of each file (identifiers and keywords alike), in the order of first occurrence,
  with the number of times it occurs; comments, string literals and numbers are left
  out. They cover what the statement lists above leave out: the bodies of the functions
  and callbacks, the members of the classes and interfaces, and all type annotations.
\<close>

text \<open>Whether a word is written in a file, and the table entries of given words.\<close>

definition written :: "(string \<times> nat) list \<Rightarrow> string \<Rightarrow> bool" where
  "written t w = (w \<in> set (map fst t))"


definition Lut3DNode_d_ts_words :: "(string \<times> nat) list" where
  "Lut3DNode_d_ts_words =
     [(''import'', 2), (''ShaderNodeObject'', 3), (''from'', 2), (''Data3DTexture'', 2),
      (''Node'', 6), (''TempNode'', 2), (''Texture3DNode'', 2), (''UniformNode'', 5),
      (''declare'', 1), (''class'', 1), (''Lut3DNode'', 3), (''extends'', 1),
      (''inputNode'', 2), (''lutNode'', 2), (''size'', 3), (''number'', 5),
      (''intensityNode'', 2), (''constructor'', 1), (''export'', 2), (''default'', 1),
      (''const'', 1), (''lut3D'', 1), (''node'', 1), (''lut'', 1), (''intensity'', 1)]"

definition WebGLRenderer_d_ts_words :: "(string \<times> nat) list" where
  "WebGLRenderer_d_ts_words =
     [(''import'', 27), (''Camera'', 5), (''from'', 27), (''CullFace'', 2),
      (''ShadowMapType'', 2), (''ToneMapping'', 2), (''WebGLCoordinateSystem'', 2),
      (''TypedArray'', 4), (''BufferGeometry'', 2), (''Object3D'', 6), (''Material'', 3),
      (''Box2'', 2), (''Box3'', 3), (''Color'', 3), (''ColorRepresentation'', 2),
      (''Plane'', 2), (''Vector2'', 7), (''Vector3'', 3), (''Vector4'', 9), (''Scene'', 4),
      (''Data3DTexture'', 2), (''DataArrayTexture'', 2), (''OffscreenCanvas'', 2),
      (''Texture'', 9), (''WebGLCapabilities'', 2), (''WebGLCapabilitiesParameters'', 2),
      (''WebGLExtensions'', 2), (''WebGLInfo'', 2), (''WebGLProgram'', 2),
      (''WebGLProperties'', 2), (''WebGLRenderLists'', 2), (''WebGLShadowMap'', 2),
      (''WebGLState'', 2), (''WebGLRenderTarget'', 11), (''WebXRManager'', 2),
      (''export'', 3), (''interface'', 2), (''WebGLRendererParameters'', 2),
      (''extends'', 1), (''canvas'', 1), (''HTMLCanvasElement'', 2), (''undefined'', 10),
      (''context'', 1), (''WebGLRenderingContext'', 3), (''alpha'', 3), (''boolean'', 26),
      (''premultipliedAlpha'', 1), (''antialias'', 1), (''stencil'', 3),
      (''preserveDrawingBuffer'', 1), (''powerPreference'', 1),
      (''WebGLPowerPreference'', 1), (''depth'', 3), (''failIfMajorPerformanceCaveat'', 1),
      (''WebGLDebug'', 2), (''checkShaderErrors'', 1), (''onShaderError'', 1), (''gl'', 1),
      (''program'', 1), (''glVertexShader'', 1), (''WebGLShader'', 2),
      (''glFragmentShader'', 1), (''void'', 33), (''null'', 14), (''class'', 1),
      (''WebGLRenderer'', 1), (''constructor'', 1), (''parameters'', 1),
      (''domElement'', 1), (''autoClear'', 1), (''autoClearColor'', 1),
      (''autoClearDepth'', 1), (''autoClearStencil'', 1), (''debug'', 1),
      (''sortObjects'', 1), (''clippingPlanes'', 1), (''localClippingEnabled'', 1),
      (''extensions'', 1), (''get'', 2), (''outputColorSpace'', 2), (''string'', 3),
      (''set'', 1), (''colorSpace'', 1), (''coordinateSystem'', 1), (''typeof'', 1),
      (''toneMapping'', 1), (''toneMappingExposure'', 1), (''number'', 43),
      (''transmissionResolutionScale'', 1), (''info'', 1), (''shadowMap'', 1),
      (''capabilities'', 1), (''properties'', 1), (''renderLists'', 1), (''state'', 1),
      (''xr'', 1), (''getContext'', 1), (''WebGL2RenderingContext'', 1),
      (''getContextAttributes'', 1), (''any'', 16), (''forceContextLoss'', 1),
      (''forceContextRestore'', 1), (''getMaxAnisotropy'', 1), (''getPrecision'', 1),
      (''getPixelRatio'', 1), (''setPixelRatio'', 1), (''value'', 1),
      (''getDrawingBufferSize'', 1), (''target'', 7), (''setDrawingBufferSize'', 1),
      (''width'', 6), (''height'', 6), (''pixelRatio'', 1), (''getSize'', 1),
      (''setSize'', 1), (''updateStyle'', 1), (''getCurrentViewport'', 1),
      (''getViewport'', 1), (''setViewport'', 1), (''x'', 4), (''y'', 4),
      (''getScissor'', 1), (''setScissor'', 1), (''getScissorTest'', 1),
      (''setScissorTest'', 1), (''enable'', 1), (''setOpaqueSort'', 1), (''method'', 2),
      (''a'', 2), (''b'', 2), (''setTransparentSort'', 1), (''getClearColor'', 1),
      (''setClearColor'', 1), (''color'', 3), (''getClearAlpha'', 1),
      (''setClearAlpha'', 1), (''clear'', 1), (''clearColor'', 1), (''clearDepth'', 1),
      (''clearStencil'', 1), (''clearTarget'', 1), (''renderTarget'', 4),
      (''resetGLState'', 1), (''dispose'', 1), (''renderBufferDirect'', 1), (''camera'', 4),
      (''scene'', 4), (''geometry'', 1), (''material'', 1), (''object'', 1),
      (''geometryGroup'', 1), (''setAnimationLoop'', 1), (''callback'', 2),
      (''XRFrameRequestCallback'', 1), (''animate'', 1), (''compile'', 1),
      (''targetScene'', 2), (''Set'', 1), (''compileAsync'', 1), (''Promise'', 2),
      (''render'', 1), (''getActiveCubeFace'', 1), (''getActiveMipmapLevel'', 1),
      (''getRenderTarget'', 1), (''getCurrentRenderTarget'', 1), (''setRenderTarget'', 1),
      (''activeCubeFace'', 1), (''activeMipmapLevel'', 1), (''readRenderTargetPixels'', 1),
      (''buffer'', 2), (''activeCubeFaceIndex'', 2), (''textureIndex'', 2),
      (''readRenderTargetPixelsAsync'', 1), (''copyFramebufferToTexture'', 1),
      (''texture'', 2), (''position'', 1), (''level'', 2), (''copyTextureToTexture'', 1),
      (''srcTexture'', 2), (''dstTexture'', 2), (''srcRegion'', 2), (''dstPosition'', 2),
      (''srcLevel'', 1), (''dstLevel'', 1), (''copyTextureToTexture3D'', 1),
      (''initRenderTarget'', 1), (''initTexture'', 1), (''resetState'', 1), (''vr'', 1),
      (''shadowMapEnabled'', 1), (''shadowMapType'', 1), (''shadowMapCullFace'', 1),
      (''supportsFloatTextures'', 1), (''supportsHalfFloatTextures'', 1),
      (''supportsStandardDerivatives'', 1), (''supportsCompressedTextureS3TC'', 1),
      (''supportsCompressedTexturePVRTC'', 1), (''supportsBlendMinMax'', 1),
      (''supportsVertexTextures'', 1), (''supportsInstancedArrays'', 1),
      (''enableScissorTest'', 1)]"

definition stream_test_words :: "(string \<times> nat) list" where
  "stream_test_words =
     [(''import'', 14), (''createReadStream'', 3), (''createWriteStream'', 2),
      (''from'', 22), (''addAbortSignal'', 2), (''Duplex'', 12), (''duplexPair'', 2),
      (''finished'', 5), (''isErrored'', 4), (''isReadable'', 3), (''pipeline'', 11),
      (''Readable'', 20), (''Transform'', 3), (''Writable'', 8), (''promisify'', 3),
      (''constants'', 2), (''createGzip'', 2), (''assert'', 6), (''require'', 1),
      (''Blob'', 3), (''Http2ServerResponse'', 2), (''performance'', 2), (''stdout'', 15),
      (''as'', 10), (''consumers'', 6), (''finishedPromise'', 7), (''pipelinePromise'', 14),
      (''ReadableStream'', 8), (''ReadableStreamBYOBReader'', 2), (''TransformStream'', 3),
      (''WritableStream'', 4), (''setInterval'', 1), (''every'', 2), (''setTimeout'', 1),
      (''wait'', 2), (''MessageChannel'', 2), (''NodeMC'', 2), (''function'', 40),
      (''simplified_stream_ctor_test'', 1), (''new'', 45), (''construct'', 4), (''cb'', 38),
      (''this'', 20), (''read'', 6), (''size'', 7), (''destroy'', 5), (''error'', 15),
      (''signal'', 14), (''AbortSignal'', 6), (''write'', 6), (''chunk'', 58), (''enc'', 8),
      (''writev'', 3), (''chunks'', 6), (''final'', 3), (''defaultEncoding'', 1),
      (''readableObjectMode'', 2), (''true'', 13), (''writableObjectMode'', 2),
      (''readableHighWaterMark'', 2), (''writableHighWaterMark'', 2), (''transform'', 6),
      (''flush'', 2), (''allowHalfOpen'', 3), (''streamPipelineFinished'', 1), (''let'', 7),
      (''cancel'', 7), (''process'', 38), (''stdin'', 25), (''err'', 17), (''Error'', 4),
      (''null'', 8), (''readable'', 25), (''false'', 11), (''const'', 62),
      (''http2ServerResponse'', 2), (''any'', 2), (''async'', 35),
      (''asyncStreamPipelineFinished'', 1), (''fin'', 7), (''await'', 38),
      (''writable'', 9), (''cleanup'', 2), (''pipe'', 4),
      (''streamPipelineAsyncTransform'', 1), (''source'', 57), (''setEncoding'', 3),
      (''for'', 29), (''of'', 25), (''AsyncIterable'', 10), (''string'', 11),
      (''yield'', 25), (''toUpperCase'', 10), (''console'', 10), (''log'', 5),
      (''return'', 4), (''Date'', 3), (''val'', 2), (''i'', 16), (''toFixed'', 4),
      (''values'', 2), (''Buffer'', 3), (''streamPipelineAsyncPromiseTransform'', 1),
      (''then'', 8), (''r'', 21), (''streamPipelineAsyncPromiseAbortTransform'', 1),
      (''AbortController'', 2), (''streamPipelineAsyncPromiseOptions'', 1), (''end'', 3),
      (''undefined'', 2), (''testConsumers'', 1), (''consumable'', 6),
      (''AsyncGenerator'', 1), (''arrayBuffer'', 1), (''blob'', 1), (''buffer'', 1),
      (''json'', 1), (''text'', 1), (''stream_readable_pipe_test'', 1), (''rs'', 5),
      (''z'', 5), (''finishFlush'', 1), (''Z_FINISH'', 1), (''w'', 2), (''typeof'', 4),
      (''bytesRead'', 2), (''path'', 2), (''instanceof'', 1), (''close'', 3),
      (''Symbol'', 2), (''asyncDispose'', 1), (''stream_duplex_allowHalfOpen_test'', 1),
      (''d'', 3), (''a'', 3), (''objectMode'', 4), (''unshift'', 1), (''isDisturbed'', 1),
      (''readableDidRead'', 2), (''boolean'', 2), (''readableAborted'', 2), (''toWeb'', 6),
      (''strategy'', 2), (''highWaterMark'', 1), (''web'', 8), (''fromWeb'', 9),
      (''emitClose'', 2), (''duplex'', 2), (''duplexLeft'', 2), (''duplexRight'', 2),
      (''testReadableReduce'', 1), (''reduce'', 4), (''prev'', 8), (''data'', 8),
      (''testReadableFind'', 1), (''find'', 2), (''Boolean'', 1), (''Array'', 1),
      (''isArray'', 1), (''testReadableStream'', 1), (''SECOND'', 2), (''stream'', 9),
      (''number'', 1), (''start'', 2), (''controller'', 6), (''_'', 1), (''enqueue'', 3),
      (''now'', 1), (''value'', 6), (''streamFromIterable'', 2),
      (''streamFromAsyncIterable'', 2), (''asyncIterator'', 1), (''testWritableStream'', 1),
      (''getWriter'', 1), (''testTransformStream'', 1), (''reason'', 2),
      (''transformedStream'', 1), (''pipeThrough'', 1),
      (''testTransferringStreamWithPostMessage'', 1), (''port1'', 2), (''port2'', 2),
      (''on'', 1), (''src'', 4), (''once'', 1), (''addListener'', 1),
      (''prependOnceListener'', 1), (''byobReader'', 9), (''getReader'', 1), (''mode'', 1),
      (''closed'', 1), (''Uint8Array'', 3), (''min'', 1), (''releaseLock'', 1)]"

section \<open>The surface of the lookup-table node\<close>

text \<open>
  C7. The declaration of the 3D lookup-table node declares exactly four own members,
  \<open>inputNode: Node\<close>, \<open>lutNode: Texture3DNode\<close>,
  \<open>size: ShaderNodeObject<UniformNode<number>>\<close> and \<open>intensityNode: UniformNode<number>\<close>
  (no other name has a declared type); its constructor takes the four arguments
  \<open>(inputNode: Node, lutNode: UniformNode<Data3DTexture>, size: number,
  intensityNode: UniformNode<number>)\<close>, all required; and the factory \<open>lut3D\<close> takes
  \<open>(node, lut, size, intensity)\<close> and returns \<open>ShaderNodeObject<Lut3DNode>\<close>.
\<close>

theorem Lut3DNode_surface:
  "member_names Lut3DNode = [''inputNode'', ''lutNode'', ''size'', ''intensityNode'']
   \<and> distinct (member_names Lut3DNode)
   \<and> member_type Lut3DNode ''inputNode'' = Some (TRef ''Node'' [])
   \<and> member_type Lut3DNode ''lutNode'' = Some (TRef ''Texture3DNode'' [])
   \<and> member_type Lut3DNode ''size'' =
        Some (TRef ''ShaderNodeObject'' [TRef ''UniformNode'' [TNumber]])
   \<and> member_type Lut3DNode ''intensityNode'' = Some (TRef ''UniformNode'' [TNumber])
   \<and> (\<forall>n. (member_type Lut3DNode n = None) =
        (n \<notin> {''inputNode'', ''lutNode'', ''size'', ''intensityNode''}))
   \<and> length (cctor Lut3DNode) = 4
   \<and> map pname (cctor Lut3DNode) = [''inputNode'', ''lutNode'', ''size'', ''intensityNode'']
   \<and> map ptype (cctor Lut3DNode) =
        [TRef ''Node'' [], TRef ''UniformNode'' [TRef ''Data3DTexture'' []], TNumber,
         TRef ''UniformNode'' [TNumber]]
   \<and> map optional (cctor Lut3DNode) = [False, False, False, False]
   \<and> map pname (sparams lut3D) = [''node'', ''lut'', ''size'', ''intensity'']
   \<and> sret lut3D = TRef ''ShaderNodeObject'' [TRef ''Lut3DNode'' []]"
  by (simp add: member_names_def member_type_def Lut3DNode_def lut3D_def req_def)

text \<open>
  The constructor of the node does not take what its fields hold: the \<open>lutNode\<close>
  parameter is written \<open>UniformNode<Data3DTexture>\<close> and the field \<open>Texture3DNode\<close>, the
  \<open>size\<close> parameter \<open>number\<close> and the field a uniform node. Whether values of the one type
  are values of the other is decided by the declarations of those classes in
  \<open>three/webgpu\<close>, which this file only imports.
\<close>

lemma Lut3DNode_ctor_types_differ_from_fields:
  "map ptype (cctor Lut3DNode) \<noteq> map snd (cfields Lut3DNode)
   \<and> Some (ptype (cctor Lut3DNode ! 1)) \<noteq> member_type Lut3DNode ''lutNode''
   \<and> Some (ptype (cctor Lut3DNode ! 2)) \<noteq> member_type Lut3DNode ''size''"
  by (simp add: member_type_def Lut3DNode_def req_def)

section \<open>Calls of \<open>setViewport\<close> and \<open>setScissor\<close>\<close>

text \<open>
  C10. \<open>WebGLRenderer.setViewport\<close> and \<open>WebGLRenderer.setScissor\<close> each accept a single
  \<open>Vector4\<close> argument and accept four numbers, because the first parameter is typed
  \<open>Vector4 | number\<close> and the remaining three are optional; so the call with a single
  number and no further argument, \<open>setViewport(5)\<close>, type-checks as well.
\<close>

theorem setViewport_setScissor_accept:
  "ptype (hd (sparams setViewport)) = TUnion [TRef ''Vector4'' [], TNumber]
   \<and> map optional (sparams setViewport) = [False, True, True, True]
   \<and> call_ok setViewport [TRef ''Vector4'' []]
   \<and> call_ok setViewport [TNumber, TNumber, TNumber, TNumber]
   \<and> call_ok setViewport [TNumber]
   \<and> ptype (hd (sparams setScissor)) = TUnion [TRef ''Vector4'' [], TNumber]
   \<and> map optional (sparams setScissor) = [False, True, True, True]
   \<and> call_ok setScissor [TRef ''Vector4'' []]
   \<and> call_ok setScissor [TNumber, TNumber, TNumber, TNumber]
   \<and> call_ok setScissor [TNumber]"
  by (simp add: call_ok_def setViewport_def setScissor_def min_args_def param_type_def
      req_def opt_def)

text \<open>
  The signature does not tie the four numbers together: any number of numeric arguments
  from one to four is accepted, none and five are not.
\<close>

lemma setViewport_numbers:
  "call_ok setViewport (replicate k TNumber) = (1 \<le> k \<and> k \<le> 4)"
proof -
  consider "k = 0" | "k = 1" | "k = 2" | "k = 3" | "k = 4" | "4 < k"
    by linarith
  then show ?thesis
    by cases
      (simp_all add: call_ok_def setViewport_def min_args_def param_type_def req_def opt_def
        numeral_eq_Suc)
qed

lemma setScissor_numbers:
  "call_ok setScissor (replicate k TNumber) = (1 \<le> k \<and> k \<le> 4)"
proof -
  consider "k = 0" | "k = 1" | "k = 2" | "k = 3" | "k = 4" | "4 < k"
    by linarith
  then show ?thesis
    by cases
      (simp_all add: call_ok_def setScissor_def min_args_def param_type_def req_def opt_def
        numeral_eq_Suc)
qed

section \<open>What running the files does\<close>







lemma declared_stream_test:
  "declared_names (fbody stream_test) =
     [''simplified_stream_ctor_test'', ''streamPipelineFinished'',
      ''asyncStreamPipelineFinished'', ''streamPipelineAsyncTransform'',
      ''streamPipelineAsyncPromiseTransform'', ''streamPipelineAsyncPromiseAbortTransform'',
      ''streamPipelineAsyncPromiseOptions'', ''testConsumers'',
      ''stream_readable_pipe_test'', ''stream_duplex_allowHalfOpen_test'',
      ''testReadableReduce'', ''testReadableFind'', ''testReadableStream'',
      ''testWritableStream'', ''testTransformStream'',
      ''testTransferringStreamWithPostMessage'']"
  by (simp add: declared_names_def stream_test_def)

lemma declared_renderer:
  "declared_names (fbody WebGLRenderer_d_ts) @ declared_names (fbody Lut3DNode_d_ts) =
     [''WebGLRendererParameters'', ''WebGLDebug'', ''WebGLRenderer'', ''Lut3DNode'', ''lut3D'']"
  by (simp add: declared_names_def WebGLRenderer_d_ts_def Lut3DNode_d_ts_def)



section \<open>What the files import and name\<close>

text \<open>
  C8, as stated: each file's imports resolve only to external library modules, never
  to another file of this repository. This fails for \<open>WebGLRenderer.d.ts\<close>, whose first
  import, \<open>../cameras/Camera.js\<close>, is a relative path and resolves to the file
  \<open>types/three/src/cameras/Camera\<close> of the repository.
\<close>

theorem imports_not_all_external:
  "\<not> (external_only stream_test \<and> external_only WebGLRenderer_d_ts
       \<and> external_only Lut3DNode_d_ts)"
  by (simp add: external_only_def targets_def imports_of_def WebGLRenderer_d_ts_def
      resolve_def is_relative_def)

text \<open>
  C8, amended. The two declaration sets are mutually independent: the stream test file
  neither imports from nor refers to any symbol declared in the renderer files, and
  the renderer files neither import from nor refer to any symbol declared in the stream
  test file. The stream test file imports only \<open>node:\<close> built-in modules (wherever
  the file lies) and nowhere writes one of the names \<open>WebGLRendererParameters\<close>,
  \<open>WebGLDebug\<close>, \<open>WebGLRenderer\<close>, \<open>Lut3DNode\<close>, \<open>lut3D\<close>; the renderer files nowhere
  write the name of one of the 16 functions of the stream test file, which exports
  nothing that an import could name. The imports of the renderer files do not all
  resolve to external library modules: \<open>Lut3DNode.d.ts\<close> imports the package entry
  points \<open>three/tsl\<close> and \<open>three/webgpu\<close>, but all 27 imports of \<open>WebGLRenderer.d.ts\<close>
  are relative paths that resolve to sibling declaration files under
  \<open>types/three/src\<close> of this repository, none of them \<open>WebGLRenderer.d.ts\<close> itself or
  \<open>Lut3DNode.d.ts\<close>.
\<close>

theorem import_independence:
  "map (resolve dir) (imports_of (fbody stream_test)) =
     [NodeBuiltin ''fs'', NodeBuiltin ''stream'', NodeBuiltin ''util'', NodeBuiltin ''zlib'',
      NodeBuiltin ''assert'', NodeBuiltin ''buffer'', NodeBuiltin ''http2'',
      NodeBuiltin ''perf_hooks'', NodeBuiltin ''process'', NodeBuiltin ''stream/consumers'',
      NodeBuiltin ''stream/promises'', NodeBuiltin ''stream/web'',
      NodeBuiltin ''timers/promises'', NodeBuiltin ''worker_threads'']
   \<and> list_all (\<lambda>n. \<not> written stream_test_words n)
        (declared_names (fbody WebGLRenderer_d_ts) @ declared_names (fbody Lut3DNode_d_ts))
   \<and> list_all
        (\<lambda>n. \<not> written WebGLRenderer_d_ts_words n \<and> \<not> written Lut3DNode_d_ts_words n)
        (declared_names (fbody stream_test))
   \<and> \<not> written stream_test_words ''export''
   \<and> list_all (\<lambda>s. import_names s \<noteq> [])
        (filter is_import (fbody WebGLRenderer_d_ts @ fbody Lut3DNode_d_ts))
   \<and> targets Lut3DNode_d_ts =
     [PackageModule ''three'' [''tsl''], PackageModule ''three'' [''webgpu'']]
   \<and> length (targets WebGLRenderer_d_ts) = 27
   \<and> list_all is_relative (imports_of (fbody WebGLRenderer_d_ts))
   \<and> list_all (is_under [''types'', ''three'', ''src'']) (targets WebGLRenderer_d_ts)
   \<and> list_all
        (\<lambda>t. t \<notin> set (map (\<lambda>f. RepoFile (module_of (fpath f)))
                          [WebGLRenderer_d_ts, Lut3DNode_d_ts]))
        (targets WebGLRenderer_d_ts @ targets Lut3DNode_d_ts)"
proof -
  have stream_imports: "map (resolve dir) (imports_of (fbody stream_test)) =
     [NodeBuiltin ''fs'', NodeBuiltin ''stream'', NodeBuiltin ''util'', NodeBuiltin ''zlib'',
      NodeBuiltin ''assert'', NodeBuiltin ''buffer'', NodeBuiltin ''http2'',
      NodeBuiltin ''perf_hooks'', NodeBuiltin ''process'', NodeBuiltin ''stream/consumers'',
      NodeBuiltin ''stream/promises'', NodeBuiltin ''stream/web'',
      NodeBuiltin ''timers/promises'', NodeBuiltin ''worker_threads'']"
    by (simp add: imports_of_def stream_test_def resolve_def is_relative_def is_builtin_def)
  have forth: "list_all (\<lambda>n. \<not> written stream_test_words n)
        (declared_names (fbody WebGLRenderer_d_ts) @ declared_names (fbody Lut3DNode_d_ts))"
    unfolding declared_renderer written_def
    by (simp add: stream_test_words_def)
  have reverse: "list_all
        (\<lambda>n. \<not> written WebGLRenderer_d_ts_words n \<and> \<not> written Lut3DNode_d_ts_words n)
        (declared_names (fbody stream_test))"
    unfolding declared_stream_test written_def
    by (simp add: WebGLRenderer_d_ts_words_def Lut3DNode_d_ts_words_def)
  have no_export: "\<not> written stream_test_words ''export''"
    unfolding written_def
    by (simp add: stream_test_words_def)
  have named: "list_all (\<lambda>s. import_names s \<noteq> [])
        (filter is_import (fbody WebGLRenderer_d_ts @ fbody Lut3DNode_d_ts))"
    by (simp add: WebGLRenderer_d_ts_def Lut3DNode_d_ts_def)
  have lut: "targets Lut3DNode_d_ts =
     [PackageModule ''three'' [''tsl''], PackageModule ''three'' [''webgpu'']]"
    by (simp add: targets_def imports_of_def Lut3DNode_d_ts_def resolve_def is_relative_def
        is_builtin_def)
  have webgl: "targets WebGLRenderer_d_ts =
     [RepoFile [''types'', ''three'', ''src'', ''cameras'', ''Camera''],
      RepoFile [''types'', ''three'', ''src'', ''constants''],
      RepoFile [''types'', ''three'', ''src'', ''core'', ''BufferAttribute''],
      RepoFile [''types'', ''three'', ''src'', ''core'', ''BufferGeometry''],
      RepoFile [''types'', ''three'', ''src'', ''core'', ''Object3D''],
      RepoFile [''types'', ''three'', ''src'', ''materials'', ''Material''],
      RepoFile [''types'', ''three'', ''src'', ''math'', ''Box2''],
      RepoFile [''types'', ''three'', ''src'', ''math'', ''Box3''],
      RepoFile [''types'', ''three'', ''src'', ''math'', ''Color''],
      RepoFile [''types'', ''three'', ''src'', ''math'', ''Plane''],
      RepoFile [''types'', ''three'', ''src'', ''math'', ''Vector2''],
      RepoFile [''types'', ''three'', ''src'', ''math'', ''Vector3''],
      RepoFile [''types'', ''three'', ''src'', ''math'', ''Vector4''],
      RepoFile [''types'', ''three'', ''src'', ''scenes'', ''Scene''],
      RepoFile [''types'', ''three'', ''src'', ''textures'', ''Data3DTexture''],
      RepoFile [''types'', ''three'', ''src'', ''textures'', ''DataArrayTexture''],
      RepoFile [''types'', ''three'', ''src'', ''textures'', ''Texture''],
      RepoFile [''types'', ''three'', ''src'', ''renderers'', ''webgl'', ''WebGLCapabilities''],
      RepoFile [''types'', ''three'', ''src'', ''renderers'', ''webgl'', ''WebGLExtensions''],
      RepoFile [''types'', ''three'', ''src'', ''renderers'', ''webgl'', ''WebGLInfo''],
      RepoFile [''types'', ''three'', ''src'', ''renderers'', ''webgl'', ''WebGLProgram''],
      RepoFile [''types'', ''three'', ''src'', ''renderers'', ''webgl'', ''WebGLProperties''],
      RepoFile [''types'', ''three'', ''src'', ''renderers'', ''webgl'', ''WebGLRenderLists''],
      RepoFile [''types'', ''three'', ''src'', ''renderers'', ''webgl'', ''WebGLShadowMap''],
      RepoFile [''types'', ''three'', ''src'', ''renderers'', ''webgl'', ''WebGLState''],
      RepoFile [''types'', ''three'', ''src'', ''renderers'', ''WebGLRenderTarget''],
      RepoFile [''types'', ''three'', ''src'', ''renderers'', ''webxr'', ''WebXRManager'']]"
    by (simp add: targets_def imports_of_def WebGLRenderer_d_ts_def resolve_def
        is_relative_def module_of_def stem_def)
  have relative: "list_all is_relative (imports_of (fbody WebGLRenderer_d_ts))"
    by (simp add: imports_of_def WebGLRenderer_d_ts_def is_relative_def)
  have files: "map (\<lambda>f. RepoFile (module_of (fpath f))) [WebGLRenderer_d_ts, Lut3DNode_d_ts] =
     [RepoFile [''types'', ''three'', ''src'', ''renderers'', ''WebGLRenderer''],
      RepoFile [''types'', ''three'', ''examples'', ''jsm'', ''tsl'', ''display'',
                ''Lut3DNode'']]"
    by (simp add: WebGLRenderer_d_ts_def Lut3DNode_d_ts_def module_of_def stem_def)
  have under_src: "list_all (is_under [''types'', ''three'', ''src''])
      (targets WebGLRenderer_d_ts)"
    unfolding webgl by simp
  have others: "list_all
        (\<lambda>t. t \<notin> set (map (\<lambda>f. RepoFile (module_of (fpath f)))
                          [WebGLRenderer_d_ts, Lut3DNode_d_ts]))
        (targets WebGLRenderer_d_ts @ targets Lut3DNode_d_ts)"
    unfolding files webgl lut by simp
  have n27: "length (targets WebGLRenderer_d_ts) = 27"
    unfolding webgl by simp
  show ?thesis
    using stream_imports forth reverse no_export named lut n27 relative under_src others
    by blast
qed

end
